theory Spec2Isabelle
  imports Main
begin

section \<open>The WhisperLive server launcher\<close>

text \<open>
  A shallow embedding of \<^verbatim>\<open>src/features/common/ai/providers/whisper_live_server.py\<close>:
  the constructor patch \<^verbatim>\<open>patched_init\<close> and the entry point \<^verbatim>\<open>main\<close>, together with the
  Python built-ins they call (\<^verbatim>\<open>float\<close>, \<^verbatim>\<open>int\<close>, \<^verbatim>\<open>str\<close>, f-strings, \<^verbatim>\<open>os.environ\<close>,
  \<^verbatim>\<open>print\<close>, the \<^verbatim>\<open>argparse\<close> store action).

  A Python \<^verbatim>\<open>str\<close> is a \<^typ>\<open>string\<close> whose characters are the code points below 256.
\<close>

subsection \<open>Python values and exceptions\<close>

datatype error = ValueError | TypeError | OverflowError | SystemExit nat

text \<open>
  A Python \<^verbatim>\<open>float\<close> is an IEEE 754 binary64 number. \<open>Finite s m e\<close> is
  \<open>(-1)\<^sup>s \<sqdot> m \<sqdot> 2\<^sup>e\<close> in the unique form with \<open>m < 2\<^sup>5\<^sup>3\<close>, \<open>-1074 \<le> e \<le> 971\<close> and
  \<open>2\<^sup>5\<^sup>2 \<le> m\<close> unless \<open>e = -1074\<close> (zero and the subnormal numbers). The sign and payload of
  a not-a-number are not kept: \<^verbatim>\<open>str\<close> prints every one of them as \<^verbatim>\<open>nan\<close>.
\<close>

datatype pyfloat = Finite bool int int | Infinity bool | NaN

datatype pyval = PStr string | PFloat pyfloat | PInt int | PNone

subsection \<open>Rounding a rational number to the nearest double\<close>

text \<open>The number of binary and of decimal digits of a positive integer.\<close>

function bitlen :: "int \<Rightarrow> int" where
  "bitlen n = (if n \<le> 0 then 0 else 1 + bitlen (n div 2))"
  by pat_completeness auto
termination
  by (relation "measure nat") auto

function declen :: "int \<Rightarrow> int" where
  "declen n = (if n \<le> 0 then 0 else 1 + declen (n div 10))"
  by pat_completeness auto
termination
  by (relation "measure nat") auto

declare bitlen.simps [simp del] declen.simps [simp del]

text \<open>
  \<open>floor_log b len n d\<close> is the largest \<open>k\<close> with \<open>b\<^sup>k \<le> n / d\<close>, for \<open>0 < n\<close>, \<open>0 < d\<close> and
  \<open>len\<close> the number of base-\<open>b\<close> digits.
\<close>

definition floor_log :: "int \<Rightarrow> (int \<Rightarrow> int) \<Rightarrow> int \<Rightarrow> int \<Rightarrow> int" where
  "floor_log b len n d =
     (let k = len n - len d
      in if (if 0 \<le> k then d * b ^ nat k \<le> n else d \<le> n * b ^ nat (- k)) then k else k - 1)"

text \<open>\<open>scale_pow b n d e\<close> is the fraction \<open>(n / d) / b\<^sup>e\<close>.\<close>

definition scale_pow :: "int \<Rightarrow> int \<Rightarrow> int \<Rightarrow> int \<Rightarrow> int \<times> int" where
  "scale_pow b n d e = (if 0 \<le> e then (n, d * b ^ nat e) else (n * b ^ nat (- e), d))"

definition round_half_even :: "int \<times> int \<Rightarrow> int" where
  "round_half_even x =
     (case x of (n, d) \<Rightarrow>
        let q = n div d; r = n mod d
        in if d < 2 * r \<or> (2 * r = d \<and> odd q) then q + 1 else q)"

text \<open>
  The double nearest to \<open>(-1)\<^sup>s \<sqdot> n / d\<close> (ties to even) for \<open>0 \<le> n\<close> and \<open>0 < d\<close>, as the
  correctly rounded conversions of CPython compute it; a magnitude of \<open>2\<^sup>1\<^sup>0\<^sup>2\<^sup>4 - 2\<^sup>9\<^sup>7\<^sup>0\<close> or
  more overflows to an infinity.
\<close>

definition round_to_double :: "bool \<Rightarrow> int \<Rightarrow> int \<Rightarrow> pyfloat" where
  "round_to_double s n d =
     (if n = 0 then Finite s 0 (- 1074)
      else
        let e = max (- 1074) (floor_log 2 bitlen n d - 52);
            m = round_half_even (scale_pow 2 n d e);
            e' = (if m = 2 ^ 53 then e + 1 else e);
            m' = (if m = 2 ^ 53 then 2 ^ 52 else m)
        in if 971 < e' then Infinity s else Finite s m' e')"

text \<open>The float literals of the source: \<^verbatim>\<open>0.3\<close> and \<^verbatim>\<open>0.5\<close>.\<close>

definition float_0_3 :: pyfloat where
  "float_0_3 = round_to_double False 3 10"

definition float_0_5 :: pyfloat where
  "float_0_5 = round_to_double False 5 10"

subsection \<open>Characters and digit strings\<close>

definition is_digit :: "char \<Rightarrow> bool" where
  "is_digit c = (48 \<le> (of_char c :: int) \<and> (of_char c :: int) \<le> 57)"

definition digit_val :: "char \<Rightarrow> int" where
  "digit_val c = of_char c - 48"

definition digit_char :: "int \<Rightarrow> char" where
  "digit_char d = ''0123456789'' ! nat d"

text \<open>
  White space that \<^verbatim>\<open>float\<close> and \<^verbatim>\<open>int\<close> strip: tab, line feed, vertical tab, form feed,
  carriage return, space, and the two spaces of Latin-1 (next line, no-break space).
\<close>

definition is_space :: "char \<Rightarrow> bool" where
  "is_space c =
     (let n = (of_char c :: int) in (9 \<le> n \<and> n \<le> 13) \<or> n = 32 \<or> n = 133 \<or> n = 160)"

definition strip :: "string \<Rightarrow> string" where
  "strip s = rev (dropWhile is_space (rev (dropWhile is_space s)))"

text \<open>
  \<open>matches_ignoring_case p s\<close>: the string \<open>s\<close> is the lower-case word \<open>p\<close>, each letter
  in either case.
\<close>

definition same_letter :: "char \<Rightarrow> char \<Rightarrow> bool" where
  "same_letter l c = (c = l \<or> (of_char c :: int) + 32 = of_char l)"

definition matches_ignoring_case :: "string \<Rightarrow> string \<Rightarrow> bool" where
  "matches_ignoring_case p s = list_all2 same_letter p s"

fun int_of_digits :: "int \<Rightarrow> string \<Rightarrow> int" where
  "int_of_digits acc [] = acc"
| "int_of_digits acc (c # cs) = int_of_digits (10 * acc + digit_val c) cs"

text \<open>The decimal digits of an integer that is not negative.\<close>

function digits_of_int :: "int \<Rightarrow> string" where
  "digits_of_int n =
     (if n < 10 then [digit_char n] else digits_of_int (n div 10) @ [digit_char (n mod 10)])"
  by pat_completeness auto
termination
  by (relation "measure nat") auto

declare digits_of_int.simps [simp del]

text \<open>
  Underscores may group digits: each underscore stands between two digits. \<open>prev\<close> is the
  character before the rest of the string (\<open>None\<close> at the start).
\<close>

fun remove_underscores :: "char option \<Rightarrow> string \<Rightarrow> string option" where
  "remove_underscores prev [] = (if prev = Some (CHR ''_'') then None else Some [])"
| "remove_underscores prev (c # cs) =
     (if c = CHR ''_'' then
        (if (case prev of None \<Rightarrow> False | Some p \<Rightarrow> is_digit p)
         then remove_underscores (Some c) cs else None)
      else if prev = Some (CHR ''_'') \<and> \<not> is_digit c then None
      else map_option ((#) c) (remove_underscores (Some c) cs))"

definition split_sign :: "string \<Rightarrow> bool \<times> string" where
  "split_sign s =
     (case s of
        [] \<Rightarrow> (False, [])
      | c # cs \<Rightarrow>
          if c = CHR ''-'' then (True, cs) else if c = CHR ''+'' then (False, cs) else (False, s))"

subsection \<open>\<^verbatim>\<open>float(s)\<close> for a string\<close>

text \<open>
  The grammar of the language reference: optional sign, then \<^verbatim>\<open>inf\<close>, \<^verbatim>\<open>infinity\<close> or
  \<^verbatim>\<open>nan\<close> in any case, or digits with an optional point and an optional exponent, at least
  one digit before or after the point and at least one in the exponent.
\<close>

definition parse_exponent :: "string \<Rightarrow> int option" where
  "parse_exponent s =
     (case s of
        [] \<Rightarrow> Some 0
      | c # cs \<Rightarrow>
          if c = CHR ''e'' \<or> c = CHR ''E'' then
            (case split_sign cs of
               (neg, ds) \<Rightarrow>
                 if ds \<noteq> [] \<and> list_all is_digit ds then
                   Some (if neg then - int_of_digits 0 ds else int_of_digits 0 ds)
                 else None)
          else None)"

definition parse_decimal :: "string \<Rightarrow> pyfloat option" where
  "parse_decimal s =
     (case split_sign s of
        (neg, r) \<Rightarrow>
          let ip = takeWhile is_digit r;
              r1 = dropWhile is_digit r;
              fp = (case r1 of
                      [] \<Rightarrow> []
                    | c # cs \<Rightarrow> if c = CHR ''.'' then takeWhile is_digit cs else []);
              r2 = (case r1 of
                      [] \<Rightarrow> []
                    | c # cs \<Rightarrow> if c = CHR ''.'' then dropWhile is_digit cs else r1)
          in if ip = [] \<and> fp = [] then None
             else
               (case parse_exponent r2 of
                  None \<Rightarrow> None
                | Some ex \<Rightarrow>
                    (case scale_pow 10 (int_of_digits 0 (ip @ fp)) 1 (int (length fp) - ex) of
                       (n, d) \<Rightarrow> Some (round_to_double neg n d))))"

definition parse_inf_or_nan :: "string \<Rightarrow> pyfloat option" where
  "parse_inf_or_nan s =
     (case split_sign s of
        (neg, r) \<Rightarrow>
          if matches_ignoring_case ''inf'' r \<or> matches_ignoring_case ''infinity'' r
          then Some (Infinity neg)
          else if matches_ignoring_case ''nan'' r then Some NaN
          else None)"

definition float_of_str :: "string \<Rightarrow> error + pyfloat" where
  "float_of_str s =
     (let t = strip s
      in if t = [] then Inl ValueError
         else
           (case remove_underscores None t of
              None \<Rightarrow> Inl ValueError
            | Some u \<Rightarrow>
                (case parse_decimal u of
                   Some x \<Rightarrow> Inr x
                 | None \<Rightarrow>
                     (case parse_inf_or_nan u of
                        Some x \<Rightarrow> Inr x
                      | None \<Rightarrow> Inl ValueError))))"

text \<open>\<^verbatim>\<open>float(x)\<close> for a value: a float is returned as it is, an integer is rounded.\<close>

definition py_float :: "pyval \<Rightarrow> error + pyfloat" where
  "py_float v =
     (case v of
        PFloat x \<Rightarrow> Inr x
      | PStr s \<Rightarrow> float_of_str s
      | PInt i \<Rightarrow>
          (case round_to_double (i < 0) \<bar>i\<bar> 1 of
             Infinity _ \<Rightarrow> Inl OverflowError
           | x \<Rightarrow> Inr x)
      | PNone \<Rightarrow> Inl TypeError)"

subsection \<open>\<^verbatim>\<open>str(x)\<close> for a float\<close>

text \<open>
  \<^verbatim>\<open>str\<close> of a float is its \<^verbatim>\<open>repr\<close>: the shortest digit string that \<^verbatim>\<open>float\<close> reads back
  to the same number and, among the shortest, the one nearest to it (a tie goes to the even
  last digit). \<open>shortest_digits m e num den p k\<close> tries \<open>17 - k\<close> significant digits and more
  for \<open>m \<sqdot> 2\<^sup>e = num / den\<close> with \<open>p = \<lfloor>log\<^sub>1\<^sub>0 (num / den)\<rfloor>\<close>, and returns the digits as a
  number \<open>c\<close> with the exponent \<open>q\<close> of its last place: \<open>c \<sqdot> 10\<^sup>q\<close>.
\<close>

definition reads_back :: "int \<Rightarrow> int \<Rightarrow> int \<Rightarrow> int \<Rightarrow> bool" where
  "reads_back m e c q =
     (case scale_pow 10 c 1 (- q) of (n, d) \<Rightarrow> round_to_double False n d = Finite False m e)"

fun shortest_digits :: "int \<Rightarrow> int \<Rightarrow> int \<Rightarrow> int \<Rightarrow> int \<Rightarrow> nat \<Rightarrow> int \<times> int" where
  "shortest_digits m e num den p 0 =
     (let q = p - 16 in (round_half_even (scale_pow 10 num den q), q))"
| "shortest_digits m e num den p (Suc k) =
     (let q = p - (15 - int k);
          sc = scale_pow 10 num den q;
          lo = fst sc div snd sc;
          r = fst sc mod snd sc;
          lo_ok = reads_back m e lo q;
          hi_ok = reads_back m e (lo + 1) q
      in if r = 0 then (lo, q)
         else if lo_ok \<and> hi_ok then (round_half_even sc, q)
         else if lo_ok then (lo, q)
         else if hi_ok then (lo + 1, q)
         else shortest_digits m e num den p k)"

fun drop_zeros :: "nat \<Rightarrow> int \<times> int \<Rightarrow> int \<times> int" where
  "drop_zeros 0 cq = cq"
| "drop_zeros (Suc fuel) cq =
     (if 0 < fst cq \<and> fst cq mod 10 = 0 then drop_zeros fuel (fst cq div 10, snd cq + 1)
      else cq)"

text \<open>
  The layout of \<^verbatim>\<open>repr\<close>: \<open>ds\<close> are the digits and \<open>decpt\<close> the position of the point
  (the number is \<open>0.ds \<sqdot> 10\<^sup>d\<^sup>e\<^sup>c\<^sup>p\<^sup>t\<close>). Exponent notation is used when \<open>decpt \<le> -4\<close> or
  \<open>16 < decpt\<close>, with a sign and at least two digits in the exponent.
\<close>

definition format_repr :: "string \<Rightarrow> int \<Rightarrow> string" where
  "format_repr ds decpt =
     (if decpt \<le> - 4 \<or> 16 < decpt then
        (let ex = decpt - 1;
             exs = digits_of_int \<bar>ex\<bar>
         in take 1 ds @ (if 1 < length ds then ''.'' @ drop 1 ds else [])
            @ ''e'' @ (if ex < 0 then ''-'' else ''+'')
            @ (if length exs < 2 then ''0'' @ exs else exs))
      else if decpt \<le> 0 then ''0.'' @ replicate (nat (- decpt)) (CHR ''0'') @ ds
      else if nat decpt < length ds then take (nat decpt) ds @ ''.'' @ drop (nat decpt) ds
      else ds @ replicate (nat decpt - length ds) (CHR ''0'') @ ''.0'')"

definition str_of_float :: "pyfloat \<Rightarrow> string" where
  "str_of_float x =
     (case x of
        NaN \<Rightarrow> ''nan''
      | Infinity s \<Rightarrow> (if s then ''-inf'' else ''inf'')
      | Finite s m e \<Rightarrow>
          (if s then ''-'' else [])
          @ (if m = 0 then ''0.0''
             else
               (case scale_pow 2 m 1 (- e) of
                  (num, den) \<Rightarrow>
                    (case drop_zeros 17
                            (shortest_digits m e num den (floor_log 10 declen num den) 16) of
                       (c, q) \<Rightarrow>
                         let ds = digits_of_int c in format_repr ds (q + int (length ds))))))"

subsection \<open>\<^verbatim>\<open>int(s)\<close> for a string and \<^verbatim>\<open>str(n)\<close> for an integer\<close>

text \<open>
  Base 10: white space stripped, an optional sign, digits grouped by single underscores.
  The interpreter's configurable limit on the number of digits is not part of the model.
\<close>

definition int_of_str :: "string \<Rightarrow> error + int" where
  "int_of_str s =
     (case split_sign (strip s) of
        (neg, r) \<Rightarrow>
          (case remove_underscores None r of
             None \<Rightarrow> Inl ValueError
           | Some ds \<Rightarrow>
               if ds \<noteq> [] \<and> list_all is_digit ds then
                 Inr (if neg then - int_of_digits 0 ds else int_of_digits 0 ds)
               else Inl ValueError))"

definition str_of_int :: "int \<Rightarrow> string" where
  "str_of_int i = (if i < 0 then ''-'' @ digits_of_int (- i) else digits_of_int i)"

subsection \<open>The process: environment and standard output\<close>

record world =
  environ :: "string \<rightharpoonup> string"
  stdout :: string

text \<open>\<^verbatim>\<open>os.environ.get(key, default)\<close> and \<^verbatim>\<open>os.environ[key] = value\<close>.\<close>

definition environ_get :: "world \<Rightarrow> string \<Rightarrow> pyval \<Rightarrow> pyval" where
  "environ_get w key dflt = (case environ w key of None \<Rightarrow> dflt | Some v \<Rightarrow> PStr v)"

definition environ_set :: "string \<Rightarrow> string \<Rightarrow> world \<Rightarrow> world" where
  "environ_set key v w = w\<lparr>environ := (environ w)(key \<mapsto> v)\<rparr>"

text \<open>\<^verbatim>\<open>print(s, flush=True)\<close>: the text and a line feed.\<close>

definition py_print :: "string \<Rightarrow> world \<Rightarrow> world" where
  "py_print s w = w\<lparr>stdout := stdout w @ s @ [CHR 0x0A]\<rparr>"

subsection \<open>The patched constructor of \<^verbatim>\<open>VoiceActivityDetector\<close>\<close>

text \<open>
  \<^verbatim>\<open>
  original_init = VoiceActivityDetector.__init__

  def patched_init(self, threshold=0.5, frame_rate=16000):
      vad_threshold = float(os.environ.get('WHISPER_LIVE_VAD_THRESHOLD', 0.3))
      original_init(self, threshold=vad_threshold, frame_rate=frame_rate)
      print(f"[WhisperLive] Using VAD threshold: {vad_threshold}", flush=True)
  \<close>
  The constructor of the library, \<^verbatim>\<open>original_init\<close>, is a parameter: it takes the object,
  the threshold, the frame rate and the process state, and raises or returns the object
  initialised. An argument the caller leaves out is \<open>None\<close> and takes its default.
\<close>

type_synonym 'obj init = "'obj \<Rightarrow> pyval \<Rightarrow> pyval \<Rightarrow> world \<Rightarrow> error + ('obj \<times> world)"

definition patched_init ::
  "'obj init \<Rightarrow> 'obj \<Rightarrow> pyval option \<Rightarrow> pyval option \<Rightarrow> world \<Rightarrow> error + ('obj \<times> world)" where
  "patched_init original_init self threshold_arg frame_rate_arg w =
     (let threshold = (case threshold_arg of None \<Rightarrow> PFloat float_0_5 | Some t \<Rightarrow> t);
          frame_rate = (case frame_rate_arg of None \<Rightarrow> PInt 16000 | Some r \<Rightarrow> r)
      in case py_float (environ_get w ''WHISPER_LIVE_VAD_THRESHOLD'' (PFloat float_0_3)) of
           Inl e \<Rightarrow> Inl e
         | Inr vad_threshold \<Rightarrow>
             (case original_init self (PFloat vad_threshold) frame_rate w of
                Inl e \<Rightarrow> Inl e
              | Inr (self', w') \<Rightarrow>
                  Inr (self',
                       py_print (''[WhisperLive] Using VAD threshold: ''
                                 @ str_of_float vad_threshold) w')))"

subsection \<open>The command line\<close>

text \<open>
  \<^verbatim>\<open>
  parser.add_argument("--port", type=int, default=9090, ...)
  parser.add_argument("--model", type=str, default="small.en", ...)
  parser.add_argument("--vad_threshold", type=float, default=0.3, ...)
  args = parser.parse_args()
  \<close>
  The command line is the list of the options given, in order, each with the word that
  follows it: \<^verbatim>\<open>--vad_threshold 0.15 --port 8000\<close> is
  \<open>[(Vad_threshold, ''0.15''), (Port, ''8000'')]\<close>. An option may be abbreviated; the spelling
  \<^verbatim>\<open>--option=value\<close>, a word that belongs to no option and a request for help are no inputs
  of this model.

  \<^verbatim>\<open>argparse\<close> (CPython 3.11) takes the word after an option as the option's argument
  unless the word looks like an option itself: \<^verbatim>\<open>_parse_optional\<close> decides that, from the
  option strings of the parser (\<^verbatim>\<open>-h\<close>, \<^verbatim>\<open>--help\<close> and the three above), their unambiguous
  prefixes, and the pattern of a negative number \<^verbatim>\<open>^-\d+$|^-\d*\.\d+$\<close>. An option left
  without an argument, an ambiguous prefix and the word \<^verbatim>\<open>--\<close> end the process with exit
  status 2.

  Each of the three arguments has the default store action: the word is converted by the
  argument's type and stored, a later occurrence replacing an earlier one, and a conversion
  that raises \<^verbatim>\<open>ValueError\<close> or \<^verbatim>\<open>TypeError\<close> ends the process with exit status 2.
\<close>

datatype option_string = Port | Model | Vad_threshold

record namespace =
  port :: int
  model :: string
  vad_threshold :: pyfloat

definition get_value :: "(string \<Rightarrow> error + 'a) \<Rightarrow> string \<Rightarrow> error + 'a" where
  "get_value type_func arg_string =
     (case type_func arg_string of
        Inl e \<Rightarrow> if e = ValueError \<or> e = TypeError then Inl (SystemExit 2) else Inl e
      | Inr v \<Rightarrow> Inr v)"

fun take_action :: "namespace \<Rightarrow> option_string \<times> string \<Rightarrow> error + namespace" where
  "take_action ns (Port, s) =
     (case get_value int_of_str s of Inl e \<Rightarrow> Inl e | Inr v \<Rightarrow> Inr (ns\<lparr>port := v\<rparr>))"
| "take_action ns (Model, s) =
     (case get_value Inr s of Inl e \<Rightarrow> Inl e | Inr v \<Rightarrow> Inr (ns\<lparr>model := v\<rparr>))"
| "take_action ns (Vad_threshold, s) =
     (case get_value float_of_str s of
        Inl e \<Rightarrow> Inl e
      | Inr v \<Rightarrow> Inr (ns\<lparr>vad_threshold := v\<rparr>))"

text \<open>The option strings of the parser, \<^verbatim>\<open>str.startswith\<close>, and the negative-number pattern
  (its \<^verbatim>\<open>$\<close> also matches before a line feed that ends the word).\<close>

definition option_strings :: "string list" where
  "option_strings = [''-h'', ''--help'', ''--port'', ''--model'', ''--vad_threshold'']"

definition startswith :: "string \<Rightarrow> string \<Rightarrow> bool" where
  "startswith s p = (take (length p) s = p)"

definition negative_number_body :: "string \<Rightarrow> bool" where
  "negative_number_body t =
     (case t of
        [] \<Rightarrow> False
      | c # r \<Rightarrow>
          c = CHR ''-''
          \<and> ((r \<noteq> [] \<and> list_all is_digit r)
               \<or> (case dropWhile is_digit r of
                      [] \<Rightarrow> False
                    | d # fr \<Rightarrow> d = CHR ''.'' \<and> fr \<noteq> [] \<and> list_all is_digit fr)))"

definition negative_number_matcher :: "string \<Rightarrow> bool" where
  "negative_number_matcher s =
     negative_number_body (if s \<noteq> [] \<and> last s = CHR 0x0A then butlast s else s)"

text \<open>
  \<^verbatim>\<open>_get_option_tuples\<close>, for a word of two characters or more that begins with \<^verbatim>\<open>-\<close>: the
  option strings that the word may stand for.
\<close>

definition get_option_tuples :: "string \<Rightarrow> string list" where
  "get_option_tuples s =
     (if take 1 (drop 1 s) = ''-'' then
        filter (\<lambda>option_string.
                  startswith option_string (takeWhile (\<lambda>c. c \<noteq> CHR ''='') s))
          option_strings
      else
        filter (\<lambda>option_string. option_string = take 2 s \<or> startswith option_string s)
          option_strings)"

text \<open>
  \<^verbatim>\<open>_parse_optional\<close>: \<open>Arg\<close> for a word that is an argument (\<^verbatim>\<open>A\<close> in the pattern of the
  command line), \<open>Opt\<close> for a word that is or looks like an option (\<^verbatim>\<open>O\<close>).
\<close>

datatype word_kind = Arg | Opt

definition parse_optional :: "string \<Rightarrow> error + word_kind" where
  "parse_optional arg_string =
     (case arg_string of
        [] \<Rightarrow> Inr Arg
      | c # cs \<Rightarrow>
          if c \<noteq> CHR ''-'' then Inr Arg
          else if arg_string \<in> set option_strings then Inr Opt
          else if cs = [] then Inr Arg
          else if CHR ''='' \<in> set arg_string
                  \<and> takeWhile (\<lambda>c. c \<noteq> CHR ''='') arg_string \<in> set option_strings
          then Inr Opt
          else if 1 < length (get_option_tuples arg_string) then Inl (SystemExit 2)
          else if length (get_option_tuples arg_string) = 1 then Inr Opt
          else if negative_number_matcher arg_string then Inr Arg
          else if CHR '' '' \<in> set arg_string then Inr Arg
          else Inr Opt)"

text \<open>
  \<^verbatim>\<open>consume_optional\<close> for an option that takes one argument: the word after it must be an
  argument.
\<close>

definition consume_optional :: "namespace \<Rightarrow> option_string \<times> string \<Rightarrow> error + namespace" where
  "consume_optional ns a =
     (if snd a = ''--'' then Inl (SystemExit 2)
      else
        (case parse_optional (snd a) of
           Inl e \<Rightarrow> Inl e
         | Inr Opt \<Rightarrow> Inl (SystemExit 2)
         | Inr Arg \<Rightarrow> take_action ns a))"

fun take_actions :: "namespace \<Rightarrow> (option_string \<times> string) list \<Rightarrow> error + namespace" where
  "take_actions ns [] = Inr ns"
| "take_actions ns (a # as) =
     (case consume_optional ns a of Inl e \<Rightarrow> Inl e | Inr ns' \<Rightarrow> take_actions ns' as)"

definition parse_args :: "(option_string \<times> string) list \<Rightarrow> error + namespace" where
  "parse_args argv =
     take_actions \<lparr>port = 9090, model = ''small.en'', vad_threshold = float_0_3\<rparr> argv"

subsection \<open>The entry point\<close>

text \<open>
  \<^verbatim>\<open>
  def main():
      ...
      args = parser.parse_args()
      os.environ['WHISPER_LIVE_VAD_THRESHOLD'] = str(args.vad_threshold)
      server = TranscriptionServer()
      model_path = args.model if "/" in args.model else None
      print(f"[WhisperLive] Starting server on port {args.port} with model={args.model}, "
            f"vad_threshold={args.vad_threshold}", flush=True)
      server.run("0.0.0.0", port=args.port, backend="faster_whisper",
                 faster_whisper_custom_model_path=model_path, single_model=True)
  \<close>
  The model of \<^verbatim>\<open>main\<close> ends where \<^verbatim>\<open>server.run\<close> is called: it returns the process state at
  the call and the arguments of the call. The server object is only the receiver of that
  call.
\<close>

record run_call =
  host :: string
  run_port :: int
  backend :: string
  faster_whisper_custom_model_path :: "string option"
  single_model :: bool

definition main :: "(option_string \<times> string) list \<Rightarrow> world \<Rightarrow> error + (world \<times> run_call)" where
  "main argv w =
     (case parse_args argv of
        Inl e \<Rightarrow> Inl e
      | Inr args \<Rightarrow>
          let w1 = environ_set ''WHISPER_LIVE_VAD_THRESHOLD'' (str_of_float (vad_threshold args)) w;
              model_path = (if CHR ''/'' \<in> set (model args) then Some (model args) else None);
              w2 = py_print (''[WhisperLive] Starting server on port '' @ str_of_int (port args)
                             @ '' with model='' @ model args
                             @ '', vad_threshold='' @ str_of_float (vad_threshold args)) w1
          in Inr (w2,
                  \<lparr>host = ''0.0.0.0'', run_port = port args, backend = ''faster_whisper'',
                   faster_whisper_custom_model_path = model_path, single_model = True\<rparr>))"

section \<open>Properties\<close>

subsection \<open>Values of the built-ins at the inputs used below\<close>

lemma float_of_str_0_15: "float_of_str ''0.15'' = Inr (Finite False 5404319552844595 (- 55))"
  by code_simp

lemma str_of_float_0_15: "str_of_float (Finite False 5404319552844595 (- 55)) = ''0.15''"
  by code_simp

lemma float_of_str_5_0: "float_of_str ''5.0'' = Inr (Finite False 5629499534213120 (- 50))"
  by code_simp

lemma str_of_float_5_0: "str_of_float (Finite False 5629499534213120 (- 50)) = ''5.0''"
  by code_simp

lemma float_0_3_value: "float_0_3 = Finite False 5404319552844595 (- 54)"
  by code_simp

lemma float_0_5_value: "float_0_5 = Finite False 4503599627370496 (- 53)"
  by code_simp

lemma float_of_str_0_3: "float_of_str ''0.3'' = Inr (Finite False 5404319552844595 (- 54))"
  by code_simp

lemma str_of_float_0_3: "str_of_float (Finite False 5404319552844595 (- 54)) = ''0.3''"
  by code_simp

lemma float_of_str_abc: "float_of_str ''abc'' = Inl ValueError"
  by code_simp

lemma int_of_str_8000: "int_of_str ''8000'' = Inr 8000"
  by code_simp

lemma str_of_int_8000: "str_of_int 8000 = ''8000''"
  by code_simp

lemma str_of_int_9090: "str_of_int 9090 = ''9090''"
  by code_simp

lemma float_of_str_minus_1e_3: "float_of_str ''-1e-3'' = Inr (Finite True 4611686018427388 (- 62))"
  by code_simp

lemma float_of_str_dashes: "float_of_str ''--'' = Inl ValueError"
  by code_simp

lemma parse_optional_0_15: "parse_optional ''0.15'' = Inr Arg"
  by code_simp

lemma parse_optional_5_0: "parse_optional ''5.0'' = Inr Arg"
  by code_simp

lemma parse_optional_8000: "parse_optional ''8000'' = Inr Arg"
  by code_simp

lemma parse_optional_custom: "parse_optional ''models/custom.bin'' = Inr Arg"
  by code_simp

lemma parse_optional_small: "parse_optional ''small.en'' = Inr Arg"
  by code_simp

lemma parse_optional_minus_1e_3: "parse_optional ''-1e-3'' = Inr Opt"
  by code_simp

subsection \<open>The conversions and the store actions\<close>

lemma float_of_str_error: "float_of_str s = Inl e \<Longrightarrow> e = ValueError"
  by (auto simp: float_of_str_def Let_def split: if_splits option.splits)

lemma take_actions_append:
  "take_actions ns (xs @ ys) =
     (case take_actions ns xs of Inl e \<Rightarrow> Inl e | Inr ns' \<Rightarrow> take_actions ns' ys)"
  by (induction xs arbitrary: ns) (auto split: sum.splits)

lemma take_action_other:
  assumes "fst a \<noteq> Vad_threshold"
  shows "take_action (ns\<lparr>vad_threshold := x\<rparr>) a =
           (case take_action ns a of Inl e \<Rightarrow> Inl e | Inr ns' \<Rightarrow> Inr (ns'\<lparr>vad_threshold := x\<rparr>))"
  using assms by (cases "(ns, a)" rule: take_action.cases) (auto split: sum.splits)

lemma consume_optional_other:
  assumes "fst a \<noteq> Vad_threshold"
  shows "consume_optional (ns\<lparr>vad_threshold := x\<rparr>) a =
           (case consume_optional ns a of
              Inl e \<Rightarrow> Inl e
            | Inr ns' \<Rightarrow> Inr (ns'\<lparr>vad_threshold := x\<rparr>))"
  using take_action_other [OF assms, where ns = ns and x = x]
  by (simp add: consume_optional_def split: sum.splits word_kind.splits)

lemma take_actions_other:
  assumes "Vad_threshold \<notin> fst ` set ys"
  shows "take_actions (ns\<lparr>vad_threshold := x\<rparr>) ys =
           (case take_actions ns ys of Inl e \<Rightarrow> Inl e | Inr ns' \<Rightarrow> Inr (ns'\<lparr>vad_threshold := x\<rparr>))"
  using assms
proof (induction ys arbitrary: ns)
  case Nil
  show ?case by simp
next
  case (Cons a ys)
  from Cons.prems have na: "fst a \<noteq> Vad_threshold" and nys: "Vad_threshold \<notin> fst ` set ys"
    by auto
  show ?case
  proof (cases "consume_optional ns a")
    case (Inl e)
    with consume_optional_other [OF na, where ns = ns and x = x] show ?thesis by simp
  next
    case (Inr ns1)
    with consume_optional_other [OF na, where ns = ns and x = x] Cons.IH [OF nys, where ns = ns1]
    show ?thesis by simp
  qed
qed

text \<open>
  A valid \<^verbatim>\<open>--vad_threshold\<close> option added to a valid command line, with no later
  \<^verbatim>\<open>--vad_threshold\<close> after it, gives the same arguments with the threshold replaced.
\<close>

lemma parse_args_with_vad_threshold:
  assumes rest: "parse_args (argv1 @ argv2) = Inr args"
    and last: "Vad_threshold \<notin> fst ` set argv2"
    and ok: "float_of_str s = Inr x"
    and word: "parse_optional s = Inr Arg"
  shows "parse_args (argv1 @ (Vad_threshold, s) # argv2) = Inr (args\<lparr>vad_threshold := x\<rparr>)"
proof -
  from rest obtain ns1 where
    p1: "take_actions \<lparr>port = 9090, model = ''small.en'', vad_threshold = float_0_3\<rparr> argv1 = Inr ns1"
    and p2: "take_actions ns1 argv2 = Inr args"
    by (auto simp: parse_args_def take_actions_append split: sum.splits)
  from ok have "s \<noteq> ''--''"
    using float_of_str_dashes by auto
  with ok word
  have "consume_optional ns1 (Vad_threshold, s) = Inr (ns1\<lparr>vad_threshold := x\<rparr>)"
    by (simp add: consume_optional_def get_value_def)
  with p1 p2 take_actions_other [OF last, where ns = ns1 and x = x] show ?thesis
    by (simp add: parse_args_def take_actions_append)
qed

lemma main_parsed:
  "parse_args argv = Inr args \<Longrightarrow>
   main argv w =
     Inr (py_print (''[WhisperLive] Starting server on port '' @ str_of_int (port args)
                    @ '' with model='' @ model args
                    @ '', vad_threshold='' @ str_of_float (vad_threshold args))
            (environ_set ''WHISPER_LIVE_VAD_THRESHOLD'' (str_of_float (vad_threshold args)) w),
          \<lparr>host = ''0.0.0.0'', run_port = port args, backend = ''faster_whisper'',
           faster_whisper_custom_model_path =
             (if CHR ''/'' \<in> set (model args) then Some (model args) else None),
           single_model = True\<rparr>)"
  by (simp add: main_def Let_def)

lemma parse_args_vad_0_15:
  "parse_args [(Vad_threshold, ''0.15'')] =
     Inr \<lparr>port = 9090, model = ''small.en'',
          vad_threshold = Finite False 5404319552844595 (- 55)\<rparr>"
  by (simp add: parse_args_def consume_optional_def parse_optional_0_15 get_value_def
      float_of_str_0_15)

lemma parse_args_port_8000:
  "parse_args [(Port, ''8000'')] =
     Inr \<lparr>port = 8000, model = ''small.en'', vad_threshold = float_0_3\<rparr>"
  by (simp add: parse_args_def consume_optional_def parse_optional_8000 get_value_def
      int_of_str_8000)

lemma parse_args_model:
  assumes "m \<noteq> ''--''" and "parse_optional m = Inr Arg"
  shows "parse_args [(Model, m)] = Inr \<lparr>port = 9090, model = m, vad_threshold = float_0_3\<rparr>"
  using assms by (simp add: parse_args_def consume_optional_def get_value_def)

lemma parse_args_model_custom:
  "parse_args [(Model, ''models/custom.bin'')] =
     Inr \<lparr>port = 9090, model = ''models/custom.bin'', vad_threshold = float_0_3\<rparr>"
  by (rule parse_args_model) (simp_all add: parse_optional_custom)

lemma parse_args_model_small:
  "parse_args [(Model, ''small.en'')] =
     Inr \<lparr>port = 9090, model = ''small.en'', vad_threshold = float_0_3\<rparr>"
  by (rule parse_args_model) (simp_all add: parse_optional_small)

lemma parse_args_vad_minus_1e_3:
  "parse_args [(Vad_threshold, ''-1e-3'')] = Inl (SystemExit 2)"
  by (simp add: parse_args_def consume_optional_def parse_optional_minus_1e_3)

lemma parse_args_Nil:
  "parse_args [] = Inr \<lparr>port = 9090, model = ''small.en'', vad_threshold = float_0_3\<rparr>"
  by (simp add: parse_args_def)

subsection \<open>The patched constructor\<close>

text \<open>
  C1. After the patch, constructing the detector with no explicit threshold gives the
  threshold held by the environment variable, not the constructor's default 0.5: whenever
  \<^verbatim>\<open>WHISPER_LIVE_VAD_THRESHOLD\<close> holds a string \<open>s\<close> that \<^verbatim>\<open>float\<close> parses, \<^verbatim>\<open>patched_init\<close>
  delegates to the original constructor with \<^verbatim>\<open>threshold = float(s)\<close>, whatever threshold
  the caller gave or left out.
\<close>

theorem patched_init_threshold_from_environ:
  assumes "environ w ''WHISPER_LIVE_VAD_THRESHOLD'' = Some s"
    and "float_of_str s = Inr x"
  shows "patched_init original_init self threshold frame_rate w =
           (case original_init self (PFloat x)
                   (case frame_rate of None \<Rightarrow> PInt 16000 | Some r \<Rightarrow> r) w of
              Inl e \<Rightarrow> Inl e
            | Inr (self', w') \<Rightarrow>
                Inr (self',
                     py_print (''[WhisperLive] Using VAD threshold: '' @ str_of_float x) w'))"
  using assms by (simp add: patched_init_def environ_get_def py_float_def Let_def)

theorem patched_init_threshold_from_environ_witness:
  "environ \<lparr>environ = [''WHISPER_LIVE_VAD_THRESHOLD'' \<mapsto> ''0.15''], stdout = []\<rparr>
       ''WHISPER_LIVE_VAD_THRESHOLD'' = Some ''0.15''
   \<and> float_of_str ''0.15'' = Inr (Finite False 5404319552844595 (- 55))
   \<and> Finite False 5404319552844595 (- 55) \<noteq> float_0_5
   \<and> patched_init (\<lambda>self t r w. Inr ((t, r), w)) (PNone, PNone) None None
        \<lparr>environ = [''WHISPER_LIVE_VAD_THRESHOLD'' \<mapsto> ''0.15''], stdout = []\<rparr> =
      Inr ((PFloat (Finite False 5404319552844595 (- 55)), PInt 16000),
           \<lparr>environ = [''WHISPER_LIVE_VAD_THRESHOLD'' \<mapsto> ''0.15''],
            stdout = ''[WhisperLive] Using VAD threshold: 0.15'' @ [CHR 0x0A]\<rparr>)"
proof -
  let ?w = "\<lparr>environ = [''WHISPER_LIVE_VAD_THRESHOLD'' \<mapsto> ''0.15''], stdout = []\<rparr>"
  have h1: "environ ?w ''WHISPER_LIVE_VAD_THRESHOLD'' = Some ''0.15''"
    by simp
  from patched_init_threshold_from_environ [OF h1 float_of_str_0_15,
      of "\<lambda>self t r w. Inr ((t, r), w)" "(PNone, PNone)" None None]
  show ?thesis
    using h1 by (simp add: float_of_str_0_15 str_of_float_0_15 float_0_5_value py_print_def)
qed

text \<open>
  C7. If \<^verbatim>\<open>WHISPER_LIVE_VAD_THRESHOLD\<close> is unset when the patched constructor runs, the
  threshold given to the original constructor is the fallback 0.3.
\<close>

theorem patched_init_unset_environ:
  assumes "environ w ''WHISPER_LIVE_VAD_THRESHOLD'' = None"
  shows "patched_init original_init self threshold frame_rate w =
           (case original_init self (PFloat float_0_3)
                   (case frame_rate of None \<Rightarrow> PInt 16000 | Some r \<Rightarrow> r) w of
              Inl e \<Rightarrow> Inl e
            | Inr (self', w') \<Rightarrow>
                Inr (self',
                     py_print (''[WhisperLive] Using VAD threshold: ''
                               @ str_of_float float_0_3) w'))"
  using assms by (simp add: patched_init_def environ_get_def py_float_def Let_def)

theorem patched_init_unset_environ_witness:
  "environ \<lparr>environ = Map.empty, stdout = []\<rparr> ''WHISPER_LIVE_VAD_THRESHOLD'' = None
   \<and> float_of_str ''0.3'' = Inr float_0_3
   \<and> patched_init (\<lambda>self t r w. Inr ((t, r), w)) (PNone, PNone) None None
        \<lparr>environ = Map.empty, stdout = []\<rparr> =
      Inr ((PFloat float_0_3, PInt 16000),
           \<lparr>environ = Map.empty,
            stdout = ''[WhisperLive] Using VAD threshold: 0.3'' @ [CHR 0x0A]\<rparr>)"
proof -
  let ?w = "\<lparr>environ = Map.empty, stdout = []\<rparr>"
  have h1: "environ ?w ''WHISPER_LIVE_VAD_THRESHOLD'' = None"
    by simp
  from patched_init_unset_environ [OF h1,
      of "\<lambda>self t r w. Inr ((t, r), w)" "(PNone, PNone)" None None]
  show ?thesis
    by (simp add: float_of_str_0_3 float_0_3_value str_of_float_0_3 py_print_def)
qed

text \<open>
  C9. If \<^verbatim>\<open>WHISPER_LIVE_VAD_THRESHOLD\<close> is set to a string that \<^verbatim>\<open>float\<close> does not parse,
  the patched constructor raises \<^verbatim>\<open>ValueError\<close> and the original constructor is not reached:
  the fallback 0.3 is for an absent variable only, not for a malformed one.
\<close>

theorem patched_init_malformed_environ:
  assumes "environ w ''WHISPER_LIVE_VAD_THRESHOLD'' = Some s"
    and "float_of_str s = Inl e"
  shows "patched_init original_init self threshold frame_rate w = Inl ValueError"
proof -
  from assms(2) have "float_of_str s = Inl ValueError"
    using float_of_str_error by blast
  with assms(1) show ?thesis
    by (simp add: patched_init_def environ_get_def py_float_def Let_def)
qed

theorem patched_init_malformed_environ_witness:
  "environ \<lparr>environ = [''WHISPER_LIVE_VAD_THRESHOLD'' \<mapsto> ''abc''], stdout = []\<rparr>
       ''WHISPER_LIVE_VAD_THRESHOLD'' = Some ''abc''
   \<and> float_of_str ''abc'' = Inl ValueError
   \<and> patched_init (\<lambda>self t r w. Inr ((t, r), w)) (PNone, PNone) None None
        \<lparr>environ = [''WHISPER_LIVE_VAD_THRESHOLD'' \<mapsto> ''abc''], stdout = []\<rparr> =
      Inl ValueError"
proof -
  let ?w = "\<lparr>environ = [''WHISPER_LIVE_VAD_THRESHOLD'' \<mapsto> ''abc''], stdout = []\<rparr>"
  have h1: "environ ?w ''WHISPER_LIVE_VAD_THRESHOLD'' = Some ''abc''"
    by simp
  from patched_init_malformed_environ [OF h1 float_of_str_abc,
      of "\<lambda>self t r w. Inr ((t, r), w)" "(PNone, PNone)" None None]
  show ?thesis
    using h1 by (simp add: float_of_str_abc)
qed

text \<open>
  C10. The patched constructor overrides the threshold only: a frame rate supplied by the
  caller is passed unchanged to the original constructor, beside the threshold read from the
  environment, and the threshold of the caller has no effect.
\<close>

theorem patched_init_passes_frame_rate:
  "patched_init original_init self threshold (Some frame_rate) w =
     (case py_float (environ_get w ''WHISPER_LIVE_VAD_THRESHOLD'' (PFloat float_0_3)) of
        Inl e \<Rightarrow> Inl e
      | Inr v \<Rightarrow>
          (case original_init self (PFloat v) frame_rate w of
             Inl e \<Rightarrow> Inl e
           | Inr (self', w') \<Rightarrow>
               Inr (self',
                    py_print (''[WhisperLive] Using VAD threshold: '' @ str_of_float v) w')))
   \<and> patched_init original_init self threshold (Some frame_rate) w =
       patched_init original_init self None (Some frame_rate) w"
  by (simp add: patched_init_def Let_def)

subsection \<open>The entry point\<close>

text \<open>
  C2. For every valid command line, after \<^verbatim>\<open>main\<close> has parsed the arguments the
  environment variable \<^verbatim>\<open>WHISPER_LIVE_VAD_THRESHOLD\<close> is \<^verbatim>\<open>str\<close> of the parsed
  \<^verbatim>\<open>vad_threshold\<close>.
\<close>

theorem main_sets_environ:
  assumes "parse_args argv = Inr args"
  shows "\<exists>w' call. main argv w = Inr (w', call)
           \<and> environ w' ''WHISPER_LIVE_VAD_THRESHOLD'' = Some (str_of_float (vad_threshold args))"
  using main_parsed [OF assms, of w] by (simp add: py_print_def environ_set_def)

theorem main_sets_environ_witness:
  "parse_args [(Vad_threshold, ''0.15'')] =
     Inr \<lparr>port = 9090, model = ''small.en'',
          vad_threshold = Finite False 5404319552844595 (- 55)\<rparr>
   \<and> (\<exists>w' call. main [(Vad_threshold, ''0.15'')] \<lparr>environ = Map.empty, stdout = []\<rparr> =
                    Inr (w', call)
          \<and> environ w' ''WHISPER_LIVE_VAD_THRESHOLD'' = Some ''0.15'')"
  using main_sets_environ [OF parse_args_vad_0_15, of "\<lparr>environ = Map.empty, stdout = []\<rparr>"]
  by (simp add: parse_args_vad_0_15 str_of_float_0_15)

text \<open>
  C3. A model string that contains the path separator \<^verbatim>\<open>/\<close> is passed to \<^verbatim>\<open>server.run\<close> as
  the custom model path, exactly as given; for a model string without it the custom model
  path is \<^verbatim>\<open>None\<close>.
\<close>

theorem main_model_path:
  assumes "parse_args argv = Inr args"
  shows "\<exists>w' call. main argv w = Inr (w', call)
           \<and> (CHR ''/'' \<in> set (model args) \<longrightarrow>
                faster_whisper_custom_model_path call = Some (model args))
           \<and> (CHR ''/'' \<notin> set (model args) \<longrightarrow>
                faster_whisper_custom_model_path call = None)"
  using main_parsed [OF assms, of w] by simp

theorem main_model_path_witness:
  "parse_args [(Model, ''models/custom.bin'')] =
     Inr \<lparr>port = 9090, model = ''models/custom.bin'', vad_threshold = float_0_3\<rparr>
   \<and> CHR ''/'' \<in> set ''models/custom.bin''
   \<and> (\<exists>w' call. main [(Model, ''models/custom.bin'')] \<lparr>environ = Map.empty, stdout = []\<rparr> =
                    Inr (w', call)
          \<and> faster_whisper_custom_model_path call = Some ''models/custom.bin'')
   \<and> parse_args [(Model, ''small.en'')] =
     Inr \<lparr>port = 9090, model = ''small.en'', vad_threshold = float_0_3\<rparr>
   \<and> CHR ''/'' \<notin> set ''small.en''
   \<and> (\<exists>w' call. main [(Model, ''small.en'')] \<lparr>environ = Map.empty, stdout = []\<rparr> =
                    Inr (w', call)
          \<and> faster_whisper_custom_model_path call = None)"
  using main_model_path [OF parse_args_model_custom, of "\<lparr>environ = Map.empty, stdout = []\<rparr>"]
    main_model_path [OF parse_args_model_small, of "\<lparr>environ = Map.empty, stdout = []\<rparr>"]
  by (simp add: parse_args_model_custom parse_args_model_small)

text \<open>
  C4. For every parsed configuration, \<^verbatim>\<open>main\<close> calls the \<^verbatim>\<open>run\<close> entry point of the server
  with the bind address \<^verbatim>\<open>0.0.0.0\<close>, the parsed port, the backend \<^verbatim>\<open>faster_whisper\<close>, the
  resolved custom model path (or \<^verbatim>\<open>None\<close>) and \<^verbatim>\<open>single_model\<close> set to \<^verbatim>\<open>True\<close>.
\<close>

theorem main_run_call:
  assumes "parse_args argv = Inr args"
  shows "\<exists>w'. main argv w =
           Inr (w',
                \<lparr>host = ''0.0.0.0'', run_port = port args, backend = ''faster_whisper'',
                 faster_whisper_custom_model_path =
                   (if CHR ''/'' \<in> set (model args) then Some (model args) else None),
                 single_model = True\<rparr>)"
  using main_parsed [OF assms, of w] by simp

theorem main_run_call_witness:
  "parse_args [(Port, ''8000'')] =
     Inr \<lparr>port = 8000, model = ''small.en'', vad_threshold = float_0_3\<rparr>
   \<and> (\<exists>w'. main [(Port, ''8000'')] \<lparr>environ = Map.empty, stdout = []\<rparr> =
             Inr (w',
                  \<lparr>host = ''0.0.0.0'', run_port = 8000, backend = ''faster_whisper'',
                   faster_whisper_custom_model_path = None, single_model = True\<rparr>))"
  using main_run_call [OF parse_args_port_8000, of "\<lparr>environ = Map.empty, stdout = []\<rparr>"]
  by (simp add: parse_args_port_8000)

text \<open>
  C5. With no option on the command line the parsed configuration is port 9090, model
  \<^verbatim>\<open>small.en\<close> and threshold 0.3: the double that \<^verbatim>\<open>float\<close> reads from \<^verbatim>\<open>0.3\<close> and that
  \<^verbatim>\<open>str\<close> prints as \<^verbatim>\<open>0.3\<close>.
\<close>

theorem parse_args_defaults:
  "parse_args [] = Inr \<lparr>port = 9090, model = ''small.en'', vad_threshold = float_0_3\<rparr>
   \<and> float_of_str ''0.3'' = Inr float_0_3
   \<and> str_of_float float_0_3 = ''0.3''"
  by (simp add: parse_args_Nil float_of_str_0_3 float_0_3_value str_of_float_0_3)

text \<open>
  C6, as the claim states it, fails: \<^verbatim>\<open>float\<close> accepts \<^verbatim>\<open>-1e-3\<close>, but after
  \<^verbatim>\<open>--vad_threshold\<close> the word looks like an option to \<^verbatim>\<open>argparse\<close>, and the process ends
  with exit status 2 before \<^verbatim>\<open>main\<close> sets the variable or prints.
\<close>

theorem main_rejects_option_like_threshold:
  "float_of_str ''-1e-3'' = Inr (Finite True 4611686018427388 (- 62))
   \<and> main [(Vad_threshold, ''-1e-3'')] \<lparr>environ = Map.empty, stdout = []\<rparr> =
       Inl (SystemExit 2)"
  by (simp add: float_of_str_minus_1e_3 main_def parse_args_vad_minus_1e_3)

text \<open>
  C6, amended. \<^verbatim>\<open>main\<close> validates no range: every threshold word that \<^verbatim>\<open>float\<close> accepts and
  that \<^verbatim>\<open>argparse\<close> takes as the argument of \<^verbatim>\<open>--vad_threshold\<close> is accepted, on a command
  line that is valid otherwise, and its value goes unchanged into the environment variable
  and into the diagnostic line. So \<^verbatim>\<open>--vad_threshold 5.0\<close> gives
  \<^verbatim>\<open>WHISPER_LIVE_VAD_THRESHOLD = "5.0"\<close>.
\<close>

theorem main_forwards_any_threshold:
  assumes "float_of_str s = Inr x"
    and "parse_optional s = Inr Arg"
    and "parse_args (argv1 @ argv2) = Inr args"
    and "Vad_threshold \<notin> fst ` set argv2"
  shows "\<exists>w' call. main (argv1 @ (Vad_threshold, s) # argv2) w = Inr (w', call)
           \<and> environ w' ''WHISPER_LIVE_VAD_THRESHOLD'' = Some (str_of_float x)
           \<and> stdout w' =
               stdout w @ ''[WhisperLive] Starting server on port '' @ str_of_int (port args)
               @ '' with model='' @ model args
               @ '', vad_threshold='' @ str_of_float x @ [CHR 0x0A]"
  using main_parsed [OF parse_args_with_vad_threshold [OF assms(3) assms(4) assms(1) assms(2)],
      of w]
  by (simp add: py_print_def environ_set_def)

theorem main_forwards_any_threshold_witness:
  "float_of_str ''5.0'' = Inr (Finite False 5629499534213120 (- 50))
   \<and> parse_optional ''5.0'' = Inr Arg
   \<and> parse_args ([] @ []) =
       Inr \<lparr>port = 9090, model = ''small.en'', vad_threshold = float_0_3\<rparr>
   \<and> Vad_threshold \<notin> fst ` set []
   \<and> (\<exists>w' call. main ([] @ (Vad_threshold, ''5.0'') # [])
                    \<lparr>environ = Map.empty, stdout = []\<rparr> = Inr (w', call)
          \<and> environ w' ''WHISPER_LIVE_VAD_THRESHOLD'' = Some ''5.0''
          \<and> stdout w' =
              ''[WhisperLive] Starting server on port 9090 with model=small.en, vad_threshold=5.0''
              @ [CHR 0x0A])"
proof -
  have h2: "parse_args ([] @ []) =
              Inr \<lparr>port = 9090, model = ''small.en'', vad_threshold = float_0_3\<rparr>"
    by (simp add: parse_args_Nil)
  have h3: "Vad_threshold \<notin> fst ` set []"
    by simp
  from main_forwards_any_threshold [OF float_of_str_5_0 parse_optional_5_0 h2 h3,
      of "\<lparr>environ = Map.empty, stdout = []\<rparr>"]
  show ?thesis
    by (simp add: float_of_str_5_0 parse_optional_5_0 parse_args_Nil str_of_float_5_0
        str_of_int_9090)
qed

text \<open>
  C8. Started with \<^verbatim>\<open>--vad_threshold 0.15\<close> (on a command line that is valid otherwise and
  has no later \<^verbatim>\<open>--vad_threshold\<close>), \<^verbatim>\<open>main\<close> prints, before it calls the server, a
  diagnostic line that contains \<^verbatim>\<open>vad_threshold=0.15\<close>.
\<close>

theorem main_diagnostic_0_15:
  assumes "parse_args (argv1 @ argv2) = Inr args"
    and "Vad_threshold \<notin> fst ` set argv2"
  shows "\<exists>w' call pre post.
           main (argv1 @ (Vad_threshold, ''0.15'') # argv2) w = Inr (w', call)
           \<and> stdout w' = stdout w @ pre @ ''vad_threshold=0.15'' @ post @ [CHR 0x0A]"
proof -
  let ?line = "''[WhisperLive] Starting server on port '' @ str_of_int (port args)
               @ '' with model='' @ model args @ '', ''"
  from main_parsed [OF parse_args_with_vad_threshold
      [OF assms float_of_str_0_15 parse_optional_0_15], of w]
  have "\<exists>w' call. main (argv1 @ (Vad_threshold, ''0.15'') # argv2) w = Inr (w', call)
          \<and> stdout w' = stdout w @ ?line @ ''vad_threshold=0.15'' @ [] @ [CHR 0x0A]"
    by (simp add: py_print_def environ_set_def str_of_float_0_15)
  then show ?thesis by blast
qed

theorem main_diagnostic_0_15_witness:
  "parse_args ([(Port, ''8000'')] @ []) =
     Inr \<lparr>port = 8000, model = ''small.en'', vad_threshold = float_0_3\<rparr>
   \<and> Vad_threshold \<notin> fst ` set []
   \<and> (\<exists>w' call pre post.
         main ([(Port, ''8000'')] @ (Vad_threshold, ''0.15'') # [])
           \<lparr>environ = Map.empty, stdout = []\<rparr> = Inr (w', call)
         \<and> stdout w' = [] @ pre @ ''vad_threshold=0.15'' @ post @ [CHR 0x0A])"
proof -
  have h1: "parse_args ([(Port, ''8000'')] @ []) =
              Inr \<lparr>port = 8000, model = ''small.en'', vad_threshold = float_0_3\<rparr>"
    by (simp add: parse_args_port_8000)
  have h2: "Vad_threshold \<notin> fst ` set []"
    by simp
  from main_diagnostic_0_15 [OF h1 h2, of "\<lparr>environ = Map.empty, stdout = []\<rparr>"] h1
  show ?thesis
    by simp
qed

end
